theory Spec2Isabelle
  imports Complex_Main "HOL-Library.Sublist"
begin

section \<open>Strings of UTF-16 code units\<close>

text \<open>
  A JavaScript string is a sequence of 16-bit code units; \<open>length\<close>, \<open>slice\<close>,
  \<open>includes\<close> and the regular expressions of \<open>index.ts\<close> (none has the \<open>u\<close> flag) all
  count and compare code units. A code unit is modelled by its number. No operation of the
  program computes with a code unit beyond comparing it and adding 32 to a capital letter,
  so no wrap-around at \<open>2 ^ 16\<close> can happen.
\<close>

type_synonym unit16 = nat
type_synonym jsstring = "unit16 list"

text \<open>A literal of the source, given by its ASCII characters.\<close>

definition js :: "string \<Rightarrow> jsstring" where
  "js s = map of_char s"

subsection \<open>\<open>String.prototype.toLowerCase\<close>, \<open>includes\<close>\<close>

text \<open>
  \<open>toLowerCase\<close> maps the capitals \<open>A\<close> .. \<open>Z\<close> (65 .. 90) to \<open>a\<close> .. \<open>z\<close>. Outside ASCII
  the model leaves a code unit as it is, where JavaScript follows the Unicode case tables.
  Two characters outside ASCII have an ASCII letter in their lower-case form: the Kelvin
  sign gives \<open>k\<close>, which no keyword of the denylist contains, and the capital I with a dot
  gives \<open>i\<close> followed by a combining dot, where the keywords have \<open>i\<close> followed by \<open>t\<close>.
  So the outcome of the denylist test is the same under the full tables.
\<close>

definition is_upper :: "unit16 \<Rightarrow> bool" where
  "is_upper c = (65 \<le> c \<and> c \<le> 90)"

definition lower_unit :: "unit16 \<Rightarrow> unit16" where
  "lower_unit c = (if is_upper c then c + 32 else c)"

definition toLowerCase :: "jsstring \<Rightarrow> jsstring" where
  "toLowerCase s = map lower_unit s"

text \<open>\<open>s.includes(k)\<close>: \<open>k\<close> occurs in \<open>s\<close> at some index.\<close>

fun starts_with :: "jsstring \<Rightarrow> jsstring \<Rightarrow> bool" where
  "starts_with s [] = True"
| "starts_with [] (k # ks) = False"
| "starts_with (c # cs) (k # ks) = (c = k \<and> starts_with cs ks)"

fun includes_js :: "jsstring \<Rightarrow> jsstring \<Rightarrow> bool" where
  "includes_js [] k = starts_with [] k"
| "includes_js (c # cs) k = (starts_with (c # cs) k \<or> includes_js cs k)"

section \<open>The denylist (index.ts, lines 1 to 13)\<close>

definition DENYLIST :: "jsstring list" where
  "DENYLIST =
    [js ''gguf'',
     js ''gptq'',
     js ''awq'',
     js ''exl3'',
     js ''exl2'',
     js ''fp8'',
     js ''mlx'',
     js ''mxfp4'',
     js ''nvfp4'',
     js ''bnb-4bit'',
     js ''bnb-8bit'']"

text \<open>
  The guard of \<open>sendToDiscord\<close> (lines 148 to 152):
  \<^verbatim>\<open>
  const name = repo.name.toLowerCase();
  if (DENYLIST.some(keyword => name.includes(keyword))) { return; }
  \<close>
  \<open>denied\<close> is the condition of the \<open>if\<close>, \<open>isRelevant\<close> its negation.
\<close>

definition denied :: "jsstring \<Rightarrow> bool" where
  "denied repo_name = (let name = toLowerCase repo_name in list_ex (\<lambda>keyword. includes_js name keyword) DENYLIST)"

definition isRelevant :: "jsstring \<Rightarrow> bool" where
  "isRelevant repo_name = (\<not> denied repo_name)"

subsection \<open>The specification's reading: a keyword in any letter case\<close>

text \<open>
  Two code units are the same letter up to case when they are equal or one is the capital
  of the other. \<open>occurs_any_case k s\<close>: somewhere in \<open>s\<close> stands a string that is \<open>k\<close> up
  to the case of its letters.
\<close>

definition same_letter :: "unit16 \<Rightarrow> unit16 \<Rightarrow> bool" where
  "same_letter c k = (c = k \<or> (is_upper c \<and> c + 32 = k) \<or> (is_upper k \<and> k + 32 = c))"

fun starts_any_case :: "jsstring \<Rightarrow> jsstring \<Rightarrow> bool" where
  "starts_any_case s [] = True"
| "starts_any_case [] (k # ks) = False"
| "starts_any_case (c # cs) (k # ks) = (same_letter c k \<and> starts_any_case cs ks)"

fun occurs_any_case :: "jsstring \<Rightarrow> jsstring \<Rightarrow> bool" where
  "occurs_any_case k [] = starts_any_case [] k"
| "occurs_any_case k (c # cs) = (starts_any_case (c # cs) k \<or> occurs_any_case k cs)"

section \<open>Numbers and \<open>abbreviateNumber\<close> (lines 79 to 95)\<close>

text \<open>
  A JavaScript number is modelled by a rational: every finite double is one. The model
  divides exactly where JavaScript rounds the quotient to the nearest double; \<open>NaN\<close> and
  the infinities are outside the model. \<open>Math.floor\<close> is \<open>\<lfloor>n\<rfloor>\<close> and \<open>Math.round\<close>
  rounds a half upwards, \<open>\<lfloor>n + 1/2\<rfloor>\<close>.
\<close>

text \<open>
  The template literal \<open>`${value}`\<close> of an integer: its decimal digits, with a minus sign
  when negative (JavaScript switches to exponent notation from \<open>10 ^ 21\<close> on, which the
  model does not).
\<close>

function digits :: "nat \<Rightarrow> jsstring" where
  "digits n = (if n < 10 then [48 + n] else digits (n div 10) @ [48 + n mod 10])"
  by pat_completeness auto
termination
  by (relation "measure id") auto

definition int_to_string :: "int \<Rightarrow> jsstring" where
  "int_to_string i = (if i < 0 then 45 # digits (nat (- i)) else digits (nat i))"

definition units :: "jsstring list" where
  "units = [js ''K'', js ''M'', js ''B'', js ''T'']"

text \<open>
  The loop
  \<^verbatim>\<open>
  while (n >= 1000 && unitIndex < units.length - 1) { n /= 1000; unitIndex++; }
  \<close>
  on the state \<open>(n, unitIndex)\<close>; \<open>unitIndex\<close> starts at \<open>-1\<close>.
\<close>

function reduce :: "rat \<Rightarrow> int \<Rightarrow> rat \<times> int" where
  "reduce n unitIndex =
     (if n \<ge> 1000 \<and> unitIndex < int (length units) - 1
      then reduce (n / 1000) (unitIndex + 1)
      else (n, unitIndex))"
  by pat_completeness auto
termination
  by (relation "measure (\<lambda>(n, unitIndex). nat (int (length units) - 1 - unitIndex))") auto

text \<open>
  \<open>abbreviateNumber(num, round = 'floor')\<close>: the second argument is \<open>None\<close> when the
  caller leaves it out. Any mode other than \<open>'round'\<close> takes the floor.
\<close>

definition abbreviateNumber :: "rat \<Rightarrow> jsstring option \<Rightarrow> jsstring" where
  "abbreviateNumber num round_arg =
     (let round_mode = (case round_arg of None \<Rightarrow> js ''floor'' | Some r \<Rightarrow> r);
          (n, unitIndex) = reduce num (- 1);
          v = (if round_mode = js ''round'' then round n else \<lfloor>n\<rfloor>)
      in if unitIndex \<ge> 0 then int_to_string v @ units ! nat unitIndex
         else int_to_string v)"

section \<open>Regular expressions\<close>

text \<open>
  \<open>cleanMarkdown\<close> is a chain of \<open>String.prototype.replace\<close> calls with regular
  expression literals. The model keeps each literal as data and interprets it with the
  backtracking semantics of ECMAScript: alternatives are tried from left to right, a greedy
  quantifier tries the longer match first and a lazy one the shorter, and the first path
  that reaches the end of the pattern is the match.

  Every quantifier of the program's patterns stands on a single character class, so a
  pattern is a sequence of the following atoms. The only capturing group of a pattern is
  group 1.
\<close>

type_synonym cset = "unit16 \<Rightarrow> bool"

datatype atom =
    One cset
  | Rep bool nat "nat option" cset
  | InputStart
  | LineStart
  | LineEnd
  | Group "atom list list"
  | BackrefI
  | Close jsstring

text \<open>
  \<^item> \<open>One p\<close>: one code unit of the class \<open>p\<close> (a literal character is a class of one);
  \<^item> \<open>Rep greedy lo hi p\<close>: between \<open>lo\<close> and \<open>hi\<close> units of the class \<open>p\<close>, \<open>hi = None\<close>
    for no upper bound: \<open>p*\<close> is \<open>Rep True 0 None p\<close>, \<open>p*?\<close> is \<open>Rep False 0 None p\<close>,
    \<open>p+\<close> is \<open>Rep True 1 None p\<close>, \<open>p?\<close> is \<open>Rep True 0 (Some 1) p\<close>;
  \<^item> \<open>InputStart\<close>: \<open>^\<close> without the \<open>m\<close> flag; \<open>LineStart\<close> and \<open>LineEnd\<close>: \<open>^\<close> and \<open>$\<close>
    with the \<open>m\<close> flag;
  \<^item> \<open>Group as\<close>: the capturing group \<open>(a1|a2|...)\<close>; \<open>BackrefI\<close>: \<open>\1\<close> under the \<open>i\<close> flag;
  \<^item> \<open>Close s0\<close> is pushed by the matcher when it enters the group with \<open>s0\<close> left to
    read, and records the capture when the group ends. It never occurs in a pattern.
\<close>

definition line_terminator :: cset where
  "line_terminator c = (c = 0x0A \<or> c = 0x0D \<or> c = 0x2028 \<or> c = 0x2029)"

text \<open>\<open>\s\<close>, also the set that \<open>trim\<close> strips: white space and line terminators.\<close>

definition space :: cset where
  "space c =
     (c = 0x09 \<or> c = 0x0A \<or> c = 0x0B \<or> c = 0x0C \<or> c = 0x0D \<or> c = 0x20 \<or> c = 0xA0
      \<or> c = 0x1680 \<or> (0x2000 \<le> c \<and> c \<le> 0x200A) \<or> c = 0x2028 \<or> c = 0x2029
      \<or> c = 0x202F \<or> c = 0x205F \<or> c = 0x3000 \<or> c = 0xFEFF)"

text \<open>\<open>.\<close> (no \<open>s\<close> flag), \<open>[\s\S]\<close>, \<open>\d\<close>, \<open>[\da-fA-F]\<close>.\<close>

definition dot :: cset where
  "dot c = (\<not> line_terminator c)"

definition any_unit :: cset where
  "any_unit c = True"

definition digit :: cset where
  "digit c = (48 \<le> c \<and> c \<le> 57)"

definition hex_digit :: cset where
  "hex_digit c = (digit c \<or> (97 \<le> c \<and> c \<le> 102) \<or> (65 \<le> c \<and> c \<le> 70))"

text \<open>
  Under the \<open>i\<close> flag two code units match when their canonical forms are equal. The
  canonical form of an ASCII letter is its capital; no code unit outside ASCII has an ASCII
  canonical form, and the patterns with the \<open>i\<close> flag spell ASCII characters only, so the
  model leaves every other code unit as it is.
\<close>

definition canon :: "unit16 \<Rightarrow> unit16" where
  "canon c = (if 97 \<le> c \<and> c \<le> 122 then c - 32 else c)"

fun starts_with_i :: "jsstring \<Rightarrow> jsstring \<Rightarrow> bool" where
  "starts_with_i s [] = True"
| "starts_with_i [] (k # ks) = False"
| "starts_with_i (c # cs) (k # ks) = (canon c = canon k \<and> starts_with_i cs ks)"

text \<open>A literal string of a pattern, without and with the \<open>i\<close> flag.\<close>

definition lit :: "string \<Rightarrow> atom list" where
  "lit s = map (\<lambda>c. One (\<lambda>u. u = c)) (js s)"

definition lit_i :: "string \<Rightarrow> atom list" where
  "lit_i s = map (\<lambda>c. One (\<lambda>u. canon u = canon c)) (js s)"

definition dec :: "nat option \<Rightarrow> nat option" where
  "dec hi = map_option (\<lambda>h. h - 1) hi"

text \<open>The weight of an atom: the matcher terminates because each call either reads input
  or goes on with atoms of less weight.\<close>

fun wt :: "atom \<Rightarrow> nat" where
  "wt (Group as) = 3 + sum_list (map (\<lambda>a. 1 + sum_list (map wt a)) as)"
| "wt _ = 1"

text \<open>
  \<open>run k cap prev s\<close> matches the atoms \<open>k\<close> at the current position: \<open>s\<close> is the input
  from the position on, \<open>prev\<close> the code unit before it (\<open>None\<close> at index 0) and \<open>cap\<close> the
  capture of group 1 so far. It returns the capture and the input left after the match, or
  \<open>None\<close> when no path matches.
\<close>

type_synonym mresult = "(jsstring option \<times> jsstring) option"

function run :: "atom list \<Rightarrow> jsstring option \<Rightarrow> unit16 option \<Rightarrow> jsstring \<Rightarrow> mresult"
  and alts :: "atom list list \<Rightarrow> atom list \<Rightarrow> jsstring option \<Rightarrow> unit16 option \<Rightarrow> jsstring \<Rightarrow> mresult"
  and rep1 :: "bool \<Rightarrow> nat option \<Rightarrow> cset \<Rightarrow> atom list \<Rightarrow> jsstring option \<Rightarrow> unit16 option \<Rightarrow> jsstring \<Rightarrow> mresult"
where
  "run [] cap prev s = Some (cap, s)"
| "run (One p # k) cap prev s =
     (case s of [] \<Rightarrow> None | c # cs \<Rightarrow> if p c then run k cap (Some c) cs else None)"
| "run (Rep g lo hi p # k) cap prev s =
     (if lo > 0 then
        (case s of [] \<Rightarrow> None
         | c # cs \<Rightarrow> if p c then run (Rep g (lo - 1) (dec hi) p # k) cap (Some c) cs else None)
      else if hi = Some 0 then run k cap prev s
      else if g then
        (case rep1 g hi p k cap prev s of Some r \<Rightarrow> Some r | None \<Rightarrow> run k cap prev s)
      else
        (case run k cap prev s of Some r \<Rightarrow> Some r | None \<Rightarrow> rep1 g hi p k cap prev s))"
| "rep1 g hi p k cap prev s =
     (case s of [] \<Rightarrow> None
      | c # cs \<Rightarrow> if p c then run (Rep g 0 (dec hi) p # k) cap (Some c) cs else None)"
| "run (InputStart # k) cap prev s = (if prev = None then run k cap prev s else None)"
| "run (LineStart # k) cap prev s =
     (if (case prev of None \<Rightarrow> True | Some c \<Rightarrow> line_terminator c) then run k cap prev s
      else None)"
| "run (LineEnd # k) cap prev s =
     (if (case s of [] \<Rightarrow> True | c # cs \<Rightarrow> line_terminator c) then run k cap prev s
      else None)"
| "run (Group as # k) cap prev s = alts as (Close s # k) cap prev s"
| "alts [] k cap prev s = None"
| "alts (a # as) k cap prev s =
     (case run (a @ k) cap prev s of Some r \<Rightarrow> Some r | None \<Rightarrow> alts as k cap prev s)"
| "run (Close s0 # k) cap prev s = run k (Some (take (length s0 - length s) s0)) prev s"
| "run (BackrefI # k) cap prev s =
     (case cap of None \<Rightarrow> run k cap prev s
      | Some t \<Rightarrow>
          if t = [] then run k cap prev s
          else if starts_with_i s t
            then run k cap (Some (s ! (length t - 1))) (drop (length t) s)
          else None)"
  by pat_completeness auto
termination
  by (relation "inv_image (less_than <*lex*> less_than) (\<lambda>x. case x of
      Inl (k, cap, prev, s) \<Rightarrow> (length s, sum_list (map wt k))
    | Inr (Inl (as, k, cap, prev, s)) \<Rightarrow>
        (length s, 1 + sum_list (map (\<lambda>a. 1 + sum_list (map wt a)) as) + sum_list (map wt k))
    | Inr (Inr (g, hi, p, k, cap, prev, s)) \<Rightarrow> (length s, 0))") auto

subsection \<open>\<open>String.prototype.replace\<close>\<close>

text \<open>
  \<open>replace\<close> first finds the matches, from left to right: at each index from the end of
  the last match on it tries the pattern, and the first index where it matches gives the
  next match. A pattern without the \<open>g\<close> flag stops after its first match. After an empty
  match the search moves one code unit on. \<open>pieces\<close> is the input cut into the code units
  that stay and the matches, each with its capture of group 1.
\<close>

datatype piece = Kept unit16 | Matched "jsstring option"

function pieces :: "atom list \<Rightarrow> bool \<Rightarrow> unit16 option \<Rightarrow> jsstring \<Rightarrow> piece list" where
  "pieces re global prev s =
     (case run re None prev s of
        None \<Rightarrow> (case s of [] \<Rightarrow> [] | c # cs \<Rightarrow> Kept c # pieces re global (Some c) cs)
      | Some (cap, s') \<Rightarrow>
          if \<not> global then Matched cap # map Kept s'
          else if length s' < length s
            then Matched cap # pieces re global (Some (s ! (length s - length s' - 1))) s'
          else (case s of [] \<Rightarrow> [Matched cap]
                | c # cs \<Rightarrow> Matched cap # Kept c # pieces re global (Some c) cs))"
  by pat_completeness auto
termination
  by (relation "measure (\<lambda>(re, global, prev, s). length s)") auto

text \<open>\<open>s.replace(re, r)\<close> with a replacement string \<open>r\<close> (none in the program has a \<open>$\<close>).\<close>

definition replace_str :: "atom list \<Rightarrow> bool \<Rightarrow> jsstring \<Rightarrow> jsstring \<Rightarrow> jsstring" where
  "replace_str re global r s =
     concat (map (\<lambda>p. case p of Kept c \<Rightarrow> [c] | Matched cap \<Rightarrow> r) (pieces re global None s))"

datatype js_error = RangeError | TypeError | SyntaxError | NetworkError | Error jsstring

text \<open>
  \<open>s.replace(re, f)\<close> with a replacement function: \<open>f\<close> is called on each match in turn,
  and the first exception it throws ends the call.
\<close>

fun call_replacer :: "(jsstring option \<Rightarrow> js_error + jsstring) \<Rightarrow> piece list \<Rightarrow> js_error + jsstring" where
  "call_replacer f [] = Inr []"
| "call_replacer f (Kept c # ps) = (case call_replacer f ps of Inl e \<Rightarrow> Inl e | Inr t \<Rightarrow> Inr (c # t))"
| "call_replacer f (Matched cap # ps) =
     (case f cap of Inl e \<Rightarrow> Inl e
      | Inr r \<Rightarrow> (case call_replacer f ps of Inl e \<Rightarrow> Inl e | Inr t \<Rightarrow> Inr (r @ t)))"

definition replace_fn :: "atom list \<Rightarrow> bool \<Rightarrow> (jsstring option \<Rightarrow> js_error + jsstring) \<Rightarrow> jsstring \<Rightarrow> js_error + jsstring" where
  "replace_fn re global f s = call_replacer f (pieces re global None s)"

subsection \<open>Positions of a search\<close>


definition prev_after :: "unit16 option \<Rightarrow> jsstring \<Rightarrow> unit16 option" where
  "prev_after prev w = (if w = [] then prev else Some (last w))"

subsection \<open>\<open>parseInt\<close>, \<open>String.fromCodePoint\<close>, \<open>trim\<close>\<close>

text \<open>
  \<open>parseInt(h, radix)\<close> reads the longest prefix of digits of the radix and gives \<open>NaN\<close>
  (here \<open>None\<close>) when there is none. White space, a sign and a \<open>0x\<close> prefix, which
  \<open>parseInt\<close> would skip, cannot stand in the captures it is called on.
\<close>

definition digit_value :: "unit16 \<Rightarrow> nat" where
  "digit_value c = (if digit c then c - 48 else if 97 \<le> c \<and> c \<le> 102 then c - 87 else c - 55)"

definition parseInt :: "jsstring option \<Rightarrow> nat \<Rightarrow> nat option" where
  "parseInt h radix =
     (case h of None \<Rightarrow> None
      | Some t \<Rightarrow>
          (let ds = takeWhile (\<lambda>c. if radix = 16 then hex_digit c else digit c) t
           in if ds = [] then None
              else Some (foldl (\<lambda>acc c. acc * radix + digit_value c) 0 ds)))"

text \<open>
  \<open>String.fromCodePoint\<close> throws a \<open>RangeError\<close> for \<open>NaN\<close> and for a number above
  \<open>0x10FFFF\<close>; a code point above \<open>0xFFFF\<close> becomes a surrogate pair.
\<close>

definition fromCodePoint :: "nat option \<Rightarrow> js_error + jsstring" where
  "fromCodePoint n =
     (case n of None \<Rightarrow> Inl RangeError
      | Some cp \<Rightarrow>
          if cp > 0x10FFFF then Inl RangeError
          else if cp < 0x10000 then Inr [cp]
          else Inr [0xD800 + (cp - 0x10000) div 0x400, 0xDC00 + (cp - 0x10000) mod 0x400])"

definition trim :: "jsstring \<Rightarrow> jsstring" where
  "trim s = rev (dropWhile space (rev (dropWhile space s)))"

definition slice0 :: "nat \<Rightarrow> jsstring \<Rightarrow> jsstring" where
  "slice0 n s = take n s"

section \<open>\<open>cleanMarkdown\<close> (lines 97 to 142)\<close>

text \<open>The regular expression literals, in the order of the source.\<close>

definition FRONTMATTER :: "atom list" where
  \<comment> \<open>\<^verbatim>\<open>/^\uFEFF?---\s*[\s\S]*?\n---\s*\n?/\<close>\<close>
  "FRONTMATTER =
     [InputStart, Rep True 0 (Some 1) (\<lambda>c. c = 0xFEFF)] @ lit ''---''
     @ [Rep True 0 None space, Rep False 0 None any_unit, One (\<lambda>c. c = 0x0A)] @ lit ''---''
     @ [Rep True 0 None space, Rep True 0 (Some 1) (\<lambda>c. c = 0x0A)]"

definition HTML_BLOCK :: "atom list" where
  \<comment> \<open>\<^verbatim>\<open>/<\s*(details|summary|div|table|thead|tbody|tr|td|th|style|script|footer|header|nav|section|aside|figure|figcaption)[\s\S]*?<\/\s*\1\s*>/gi\<close>\<close>
  "HTML_BLOCK =
     lit_i ''<'' @
     [Rep True 0 None space,
      Group (map lit_i
        [''details'', ''summary'', ''div'', ''table'', ''thead'', ''tbody'', ''tr'', ''td'',
         ''th'', ''style'', ''script'', ''footer'', ''header'', ''nav'', ''section'', ''aside'',
         ''figure'', ''figcaption'']),
      Rep False 0 None any_unit]
     @ lit_i ''</'' @ [Rep True 0 None space, BackrefI, Rep True 0 None space] @ lit_i ''>''"

definition VOID_TAG :: "atom list" where
  \<comment> \<open>\<^verbatim>\<open>/<\s*(img|br|hr|input|meta|link)[^>]*>/gi\<close>\<close>
  "VOID_TAG =
     lit_i ''<'' @
     [Rep True 0 None space,
      Group (map lit_i [''img'', ''br'', ''hr'', ''input'', ''meta'', ''link'']),
      Rep True 0 None (\<lambda>c. c \<noteq> 62)]
     @ lit_i ''>''"

definition ANY_TAG :: "atom list" where
  \<comment> \<open>\<^verbatim>\<open>/<\/?[^>]+>/g\<close>\<close>
  "ANY_TAG =
     lit ''<'' @ [Rep True 0 (Some 1) (\<lambda>c. c = 47), Rep True 1 None (\<lambda>c. c \<noteq> 62)] @ lit ''>''"

definition ATX_HEADING :: "atom list" where
  \<comment> \<open>\<^verbatim>\<open>/^\s{0,3}#{1,6}\s+.*$/gm\<close>\<close>
  "ATX_HEADING =
     [LineStart, Rep True 0 (Some 3) space, Rep True 1 (Some 6) (\<lambda>c. c = 35),
      Rep True 1 None space, Rep True 0 None dot, LineEnd]"

definition SETEXT_UNDERLINE :: "atom list" where
  \<comment> \<open>\<^verbatim>\<open>/^\s*[-=]{3,}\s*$/gm\<close>\<close>
  "SETEXT_UNDERLINE =
     [LineStart, Rep True 0 None space, Rep True 3 None (\<lambda>c. c = 45 \<or> c = 61),
      Rep True 0 None space, LineEnd]"

definition IMAGE :: "atom list" where
  \<comment> \<open>\<^verbatim>\<open>/!\[[^\]]*\]\([^)]*\)/g\<close>\<close>
  "IMAGE =
     lit ''!['' @ [Rep True 0 None (\<lambda>c. c \<noteq> 93)] @ lit ''](''
     @ [Rep True 0 None (\<lambda>c. c \<noteq> 41)] @ lit '')''"

definition TABLE_ROW :: "atom list" where
  \<comment> \<open>\<^verbatim>\<open>/^\s*\|.*\|\s*$/gm\<close>\<close>
  "TABLE_ROW =
     [LineStart, Rep True 0 None space] @ lit ''|'' @ [Rep True 0 None dot] @ lit ''|''
     @ [Rep True 0 None space, LineEnd]"

definition HEX_ENTITY :: "atom list" where
  \<comment> \<open>\<^verbatim>\<open>/&#x([\da-fA-F]+);/g\<close>\<close>
  "HEX_ENTITY = lit ''&#x'' @ [Group [[Rep True 1 None hex_digit]]] @ lit '';''"

definition DEC_ENTITY :: "atom list" where
  \<comment> \<open>\<^verbatim>\<open>/&#(\d+);/g\<close>\<close>
  "DEC_ENTITY = lit ''&#'' @ [Group [[Rep True 1 None digit]]] @ lit '';''"

definition TRAILING_BLANKS :: "atom list" where
  \<comment> \<open>\<^verbatim>\<open>/[ \t]+\n/g\<close>\<close>
  "TRAILING_BLANKS = [Rep True 1 None (\<lambda>c. c = 32 \<or> c = 9), One (\<lambda>c. c = 0x0A)]"

definition NEWLINES :: "atom list" where
  \<comment> \<open>\<^verbatim>\<open>/\n{3,}/g\<close>\<close>
  "NEWLINES = [Rep True 3 None (\<lambda>c. c = 0x0A)]"

text \<open>
  The steps of \<open>cleanMarkdown\<close> up to the entities, which cannot throw: \<open>md || ""\<close>, then
  the replacements of lines 101 to 131.
\<close>

definition strip_markup :: "jsstring option \<Rightarrow> jsstring" where
  "strip_markup md =
     (let s = (case md of None \<Rightarrow> [] | Some t \<Rightarrow> t);
          s = replace_str FRONTMATTER False [] s;
          s = replace_str HTML_BLOCK True [] s;
          s = replace_str VOID_TAG True [] s;
          s = replace_str ANY_TAG True [] s;
          s = replace_str ATX_HEADING True [] s;
          s = replace_str SETEXT_UNDERLINE True [] s;
          s = replace_str IMAGE True [] s;
          s = replace_str TABLE_ROW True [] s;
          s = replace_str (lit ''&nbsp;'') True (js '' '') s;
          s = replace_str (lit ''&amp;'') True (js ''&'') s;
          s = replace_str (lit ''&lt;'') True (js ''<'') s;
          s = replace_str (lit ''&gt;'') True (js ''>'') s
      in s)"

text \<open>Lines 135 to 139: the white space steps.\<close>

definition collapse_whitespace :: "jsstring \<Rightarrow> jsstring" where
  "collapse_whitespace s =
     trim (replace_str NEWLINES True [0x0A, 0x0A] (replace_str TRAILING_BLANKS True [0x0A] s))"

text \<open>
  \<open>cleaned md\<close> is the value of \<open>s\<close> before the last line of the function. The two numeric
  entity steps call \<open>String.fromCodePoint\<close>, which can throw.
\<close>

definition cleaned :: "jsstring option \<Rightarrow> js_error + jsstring" where
  "cleaned md =
     (case replace_fn HEX_ENTITY True (\<lambda>h. fromCodePoint (parseInt h 16)) (strip_markup md) of
        Inl e \<Rightarrow> Inl e
      | Inr s \<Rightarrow>
          (case replace_fn DEC_ENTITY True (\<lambda>n. fromCodePoint (parseInt n 10)) s of
             Inl e \<Rightarrow> Inl e
           | Inr s \<Rightarrow> Inr (collapse_whitespace s)))"

text \<open>\<^verbatim>\<open>return s.slice(0,1021) + "...";\<close>\<close>

definition cleanMarkdown :: "jsstring option \<Rightarrow> js_error + jsstring" where
  "cleanMarkdown md =
     (case cleaned md of Inl e \<Rightarrow> Inl e | Inr s \<Rightarrow> Inr (slice0 1021 s @ js ''...''))"

section \<open>The webhook payload and the network\<close>

text \<open>
  \<open>HFWebhookPayload\<close> (lines 15 to 38). A field is renamed where its name is taken in
  Isabelle or by another record: \<open>repo.type\<close> is \<open>repo_type\<close>, \<open>repo.private\<close> is
  \<open>repo_private\<close>, \<open>repo.url.web\<close> is \<open>web\<close>, and so on; the \<open>fields\<close> of an embed are
  \<open>embed_fields\<close>. The optional \<open>tags\<close> is an option.
\<close>

record hf_event =
  action :: jsstring
  scope :: jsstring

record hf_url =
  web :: jsstring
  api :: jsstring

record hf_repo =
  repo_type :: jsstring
  repo_name :: jsstring
  repo_id :: jsstring
  repo_private :: bool
  repo_url :: hf_url
  owner_id :: jsstring
  tags :: "jsstring list option"

record hf_webhook =
  webhook_id :: jsstring
  version :: rat

record HFWebhookPayload =
  event :: hf_event
  repo :: hf_repo
  webhook :: hf_webhook

text \<open>
  A parsed JSON document. An object is the list of its members, each key once (the members
  that \<open>JSON.parse\<close> keeps).
\<close>

datatype json =
    JNull
  | JBool bool
  | JNum rat
  | JStr jsstring
  | JArr "json list"
  | JObj "(jsstring \<times> json) list"

text \<open>
  A response of \<open>fetch\<close>: \<open>body_json\<close> is what \<open>.json()\<close> resolves to, \<open>None\<close> when the body
  is not JSON and \<open>.json()\<close> rejects with a \<open>SyntaxError\<close>; \<open>body_text\<close> is what \<open>.text()\<close>
  resolves to. \<open>response.ok\<close> holds for the statuses 200 to 299.
\<close>

record response =
  status :: nat
  statusText :: jsstring
  body_text :: jsstring
  body_json :: "json option"

definition ok :: "response \<Rightarrow> bool" where
  "ok r = (200 \<le> status r \<and> status r \<le> 299)"

text \<open>
  The embed that \<open>sendToDiscord\<close> builds (lines 173 to 194). The value of a field is a JSON
  value: the licence is whatever the metadata holds.
\<close>

record embed_field =
  field_name :: jsstring
  field_value :: json
  inline :: bool

text \<open>
  The value of \<open>color\<close>: a number, or a property that the lookup \<open>colors[repo.type]\<close> found
  on \<open>Object.prototype\<close> (a function or an object, never a number).
\<close>

datatype color_value = Number nat | Inherited jsstring

record embed =
  title :: jsstring
  description :: jsstring
  color :: color_value
  embed_fields :: "embed_field list"
  url :: jsstring
  timestamp :: jsstring
  footer_text :: jsstring
  footer_icon_url :: jsstring

record discord_payload =
  embeds :: "embed list"

text \<open>
  The calls of \<open>fetch\<close>: a plain \<open>GET\<close> of a URL, or the \<open>POST\<close> of line 204 with its
  headers and body (the payload, before \<open>JSON.stringify\<close>).
\<close>

datatype request =
    GET jsstring
  | POST jsstring "(jsstring \<times> jsstring) list" discord_payload

text \<open>
  The world outside the function: what each \<open>fetch\<close> resolves to (\<open>Inl\<close> when the promise
  rejects; a failure while the body is read counts as a failure of the fetch), and the
  clock, \<open>new Date().toISOString()\<close>. \<open>abbreviate_coerced\<close> stands for the string that
  \<open>abbreviateNumber\<close> returns when \<open>safetensors.total\<close> is not a number and JavaScript
  coerces it; the model does not embed these coercions.
\<close>

record world =
  fetch :: "request \<Rightarrow> js_error + response"
  now :: jsstring
  abbreviate_coerced :: "json \<Rightarrow> jsstring"

section \<open>\<open>sendToDiscord\<close> (lines 145 to 215)\<close>

text \<open>
  \<^verbatim>\<open>
  const colors: Record<string, number> = { model: 0xFF9D00, dataset: 0x00D1FF, space: 0xFF006E };
  const color = colors[repo.type] || 0x808080; // Gray for unknown types
  \<close>
  \<open>colors\<close> is an object literal, so \<open>colors[k]\<close> finds the own property \<open>k\<close> or, failing
  that, a property of that name on \<open>Object.prototype\<close>, and is \<open>undefined\<close> for any other
  key. The inherited properties are functions, and \<open>__proto__\<close> is an object: all truthy.
\<close>

definition colors :: "(jsstring \<times> nat) list" where
  "colors = [(js ''model'', 0xFF9D00), (js ''dataset'', 0x00D1FF), (js ''space'', 0xFF006E)]"

definition object_prototype_names :: "jsstring list" where
  "object_prototype_names =
     [js ''constructor'', js ''__proto__'', js ''hasOwnProperty'', js ''isPrototypeOf'',
      js ''propertyIsEnumerable'', js ''toLocaleString'', js ''toString'', js ''valueOf'',
      js ''__defineGetter__'', js ''__defineSetter__'', js ''__lookupGetter__'',
      js ''__lookupSetter__'']"

definition lookup_color :: "jsstring \<Rightarrow> color_value" where
  "lookup_color t =
     (case map_of colors t of
        Some n \<Rightarrow> if n \<noteq> 0 then Number n else Number 0x808080
      | None \<Rightarrow> if t \<in> set object_prototype_names then Inherited t else Number 0x808080)"

text \<open>
  \<open>repo.type.charAt(0).toUpperCase() + repo.type.slice(1)\<close>. As for \<open>toLowerCase\<close>, the
  model changes the case of ASCII letters only.
\<close>

definition upper_unit :: "unit16 \<Rightarrow> unit16" where
  "upper_unit c = (if 97 \<le> c \<and> c \<le> 122 then c - 32 else c)"

definition capitalize :: "jsstring \<Rightarrow> jsstring" where
  "capitalize t = map upper_unit (take 1 t) @ drop 1 t"

text \<open>
  \<open>repo.tags?.slice(0, 5).join(', ') || 'None'\<close> (line 165). The source computes it and
  never uses it.
\<close>

fun join_js :: "jsstring \<Rightarrow> jsstring list \<Rightarrow> jsstring" where
  "join_js sep [] = []"
| "join_js sep [x] = x"
| "join_js sep (x # y # ys) = x @ sep @ join_js sep (y # ys)"

definition format_tags :: "jsstring list option \<Rightarrow> jsstring" where
  "format_tags ts =
     (case ts of None \<Rightarrow> js ''None''
      | Some xs \<Rightarrow> (let j = join_js (js '', '') (take 5 xs) in if j = [] then js ''None'' else j))"

text \<open>
  \<open>k in v\<close> throws a \<open>TypeError\<close> unless \<open>v\<close> is an object (an array is one). The program
  asks for the keys \<open>safetensors\<close>, \<open>total\<close>, \<open>cardData\<close> and \<open>license\<close>; none of them is an
  array index or the name of an inherited property, so \<open>in\<close> is membership among the own
  members of an object and false on an array.
\<close>

definition js_in :: "jsstring \<Rightarrow> json \<Rightarrow> js_error + bool" where
  "js_in k v =
     (case v of
        JObj members \<Rightarrow> Inr (map_of members k \<noteq> None)
      | JArr xs \<Rightarrow> Inr False
      | _ \<Rightarrow> Inl TypeError)"

text \<open>\<open>v.k\<close> where \<open>k in v\<close> has just been found true.\<close>

definition get_member :: "json \<Rightarrow> jsstring \<Rightarrow> json" where
  "get_member v k = (case v of JObj members \<Rightarrow> (case map_of members k of Some x \<Rightarrow> x | None \<Rightarrow> JNull) | _ \<Rightarrow> JNull)"

text \<open>\<open>"a" in model_info && "b" in model_info.a\<close>\<close>

definition has_path :: "json \<Rightarrow> jsstring \<Rightarrow> jsstring \<Rightarrow> js_error + bool" where
  "has_path model_info a b =
     (case js_in a model_info of
        Inl e \<Rightarrow> Inl e
      | Inr False \<Rightarrow> Inr False
      | Inr True \<Rightarrow> js_in b (get_member model_info a))"

text \<open>The value of the \<open>Parameters\<close> field: \<open>abbreviateNumber(model_info.safetensors.total)\<close>.\<close>

definition parameters_value :: "world \<Rightarrow> json \<Rightarrow> jsstring" where
  "parameters_value w tot =
     (case tot of JNum num \<Rightarrow> abbreviateNumber num None | v \<Rightarrow> abbreviate_coerced w v)"

definition readme_url :: "jsstring \<Rightarrow> jsstring" where
  "readme_url name = js ''https://huggingface.co/'' @ name @ js ''/raw/main/README.md''"

definition base_embed :: "world \<Rightarrow> hf_repo \<Rightarrow> jsstring \<Rightarrow> embed" where
  "base_embed w r desc =
     \<lparr> title = repo_name r,
       description = desc,
       color = lookup_color (repo_type r),
       embed_fields = [\<lparr> field_name = js ''Type'', field_value = JStr (capitalize (repo_type r)), inline = True \<rparr>],
       url = web (repo_url r),
       timestamp = now w,
       footer_text = js ''Hugging Face'',
       footer_icon_url = js ''https://huggingface.co/front/assets/huggingface_logo-noborder.svg'' \<rparr>"

text \<open>The two \<open>push\<close> calls of lines 196 to 202, each guarded by its \<open>in\<close> test.\<close>

definition push_parameters :: "world \<Rightarrow> json \<Rightarrow> embed \<Rightarrow> js_error + embed" where
  "push_parameters w model_info e =
     (case has_path model_info (js ''safetensors'') (js ''total'') of
        Inl err \<Rightarrow> Inl err
      | Inr False \<Rightarrow> Inr e
      | Inr True \<Rightarrow>
          Inr (e\<lparr>embed_fields := embed_fields e @
            [\<lparr> field_name = js ''Parameters'',
               field_value = JStr (parameters_value w (get_member (get_member model_info (js ''safetensors'')) (js ''total''))),
               inline = True \<rparr>]\<rparr>))"

definition push_license :: "json \<Rightarrow> embed \<Rightarrow> js_error + embed" where
  "push_license model_info e =
     (case has_path model_info (js ''cardData'') (js ''license'') of
        Inl err \<Rightarrow> Inl err
      | Inr False \<Rightarrow> Inr e
      | Inr True \<Rightarrow>
          Inr (e\<lparr>embed_fields := embed_fields e @
            [\<lparr> field_name = js ''License'',
               field_value = get_member (get_member model_info (js ''cardData'')) (js ''license''),
               inline = True \<rparr>]\<rparr>))"

definition webhook_request :: "jsstring \<Rightarrow> embed \<Rightarrow> request" where
  "webhook_request webhookUrl e =
     POST webhookUrl [(js ''Content-Type'', js ''application/json'')] \<lparr> embeds = [e] \<rparr>"

definition failure_message :: "response \<Rightarrow> jsstring" where
  "failure_message r =
     js ''Discord webhook failed: '' @ digits (status r) @ js '' '' @ statusText r"

text \<open>
  \<open>sendToDiscord\<close> returns the calls of \<open>fetch\<close> it has made, in order, and how its promise
  settles: \<open>Inr ()\<close> when it resolves, \<open>Inl e\<close> when it rejects with \<open>e\<close>. A notification is
  produced exactly when the \<open>POST\<close> to the webhook is among the calls.
\<close>

definition sendToDiscord :: "world \<Rightarrow> HFWebhookPayload \<Rightarrow> jsstring \<Rightarrow> request list \<times> (js_error + unit)" where
  "sendToDiscord w payload webhookUrl =
     (if denied (repo_name (repo payload)) then ([], Inr ())
      else
        (case fetch w (GET (api (repo_url (repo payload)))) of
           Inl e \<Rightarrow> ([GET (api (repo_url (repo payload)))], Inl e)
         | Inr model_info_res \<Rightarrow>
        (case body_json model_info_res of
           None \<Rightarrow> ([GET (api (repo_url (repo payload)))], Inl SyntaxError)
         | Some model_info \<Rightarrow>
        (case fetch w (GET (readme_url (repo_name (repo payload)))) of
           Inl e \<Rightarrow>
             ([GET (api (repo_url (repo payload))), GET (readme_url (repo_name (repo payload)))], Inl e)
         | Inr readme_res \<Rightarrow>
        (case cleanMarkdown (if status readme_res = 200 then Some (body_text readme_res) else None) of
           Inl e \<Rightarrow>
             ([GET (api (repo_url (repo payload))), GET (readme_url (repo_name (repo payload)))], Inl e)
         | Inr desc \<Rightarrow>
        (case push_parameters w model_info (base_embed w (repo payload) desc) of
           Inl e \<Rightarrow>
             ([GET (api (repo_url (repo payload))), GET (readme_url (repo_name (repo payload)))], Inl e)
         | Inr e1 \<Rightarrow>
        (case push_license model_info e1 of
           Inl e \<Rightarrow>
             ([GET (api (repo_url (repo payload))), GET (readme_url (repo_name (repo payload)))], Inl e)
         | Inr e2 \<Rightarrow>
        (case fetch w (webhook_request webhookUrl e2) of
           Inl e \<Rightarrow>
             ([GET (api (repo_url (repo payload))), GET (readme_url (repo_name (repo payload))),
               webhook_request webhookUrl e2], Inl e)
         | Inr response \<Rightarrow>
             ([GET (api (repo_url (repo payload))), GET (readme_url (repo_name (repo payload))),
               webhook_request webhookUrl e2],
              if \<not> ok response then Inl (Error (failure_message response)) else Inr ())))))))))"

text \<open>The notification: the payload of the \<open>POST\<close> among the calls, if there is one.\<close>

fun posted :: "request list \<Rightarrow> discord_payload option" where
  "posted [] = None"
| "posted (GET u # rs) = posted rs"
| "posted (POST u h p # rs) = Some p"

definition notification :: "world \<Rightarrow> HFWebhookPayload \<Rightarrow> jsstring \<Rightarrow> discord_payload option" where
  "notification w payload webhookUrl = posted (fst (sendToDiscord w payload webhookUrl))"

section \<open>Notions of the specification\<close>

text \<open>Plain text for the summarizer: letters and digits of ASCII, nothing else.\<close>

definition alnum :: "unit16 \<Rightarrow> bool" where
  "alnum c = (digit c \<or> (65 \<le> c \<and> c \<le> 90) \<or> (97 \<le> c \<and> c \<le> 122))"


text \<open>
  The metadata of a subject (the specification's SubjectMetadata): a JSON object with the
  optional paths \<open>safetensors.total\<close> and \<open>cardData.license\<close>. \<open>lookup_path\<close> is the
  optional-value lookup of such a path. The metadata is well formed when it is an object
  and \<open>safetensors\<close> and \<open>cardData\<close>, where present, are objects too.
\<close>

definition lookup_path :: "json \<Rightarrow> jsstring \<Rightarrow> jsstring \<Rightarrow> json option" where
  "lookup_path m a b =
     (case m of
        JObj ms \<Rightarrow> (case map_of ms a of Some (JObj ms') \<Rightarrow> map_of ms' b | _ \<Rightarrow> None)
      | _ \<Rightarrow> None)"

definition is_object :: "json \<Rightarrow> bool" where
  "is_object v = (case v of JObj ms \<Rightarrow> True | JArr xs \<Rightarrow> True | _ \<Rightarrow> False)"

definition well_formed :: "json \<Rightarrow> bool" where
  "well_formed m =
     (is_object m
      \<and> (js_in (js ''safetensors'') m = Inr True \<longrightarrow> is_object (get_member m (js ''safetensors'')))
      \<and> (js_in (js ''cardData'') m = Inr True \<longrightarrow> is_object (get_member m (js ''cardData''))))"

text \<open>
  The field list of the specification: \<open>Type\<close>, then \<open>Parameters\<close> when the metadata has
  a weight total, then \<open>License\<close> when it has a licence.
\<close>

definition expected_fields :: "world \<Rightarrow> jsstring \<Rightarrow> json \<Rightarrow> embed_field list" where
  "expected_fields w t m =
     [\<lparr> field_name = js ''Type'', field_value = JStr (capitalize t), inline = True \<rparr>]
     @ (case lookup_path m (js ''safetensors'') (js ''total'') of
          None \<Rightarrow> []
        | Some v \<Rightarrow>
            [\<lparr> field_name = js ''Parameters'', field_value = JStr (parameters_value w v),
               inline = True \<rparr>])
     @ (case lookup_path m (js ''cardData'') (js ''license'') of
          None \<Rightarrow> []
        | Some v \<Rightarrow> [\<lparr> field_name = js ''License'', field_value = v, inline = True \<rparr>])"

subsection \<open>The scenarios of the specification\<close>

text \<open>
  An event for the subject \<open>n\<close> of type \<open>t\<close>; a metadata document with 7 billion weights
  and the licence \<open>mit\<close>; and a world where the metadata endpoint answers with the document
  \<open>m\<close>, the documentation host with the status \<open>st\<close> and the text \<open>readme\<close>, and the
  webhook with 204.
\<close>

definition sample_event :: "jsstring \<Rightarrow> jsstring \<Rightarrow> bool \<Rightarrow> HFWebhookPayload" where
  "sample_event t n p =
     \<lparr> event = \<lparr> action = js ''create'', scope = js ''repo'' \<rparr>,
       repo = \<lparr> repo_type = t, repo_name = n, repo_id = js ''65f0'', repo_private = p,
                repo_url = \<lparr> web = js ''https://huggingface.co/'' @ n,
                             api = js ''https://huggingface.co/api/models/'' @ n \<rparr>,
                owner_id = js ''64a1'', tags = None \<rparr>,
       webhook = \<lparr> webhook_id = js ''66b2'', version = 3 \<rparr> \<rparr>"

definition sample_metadata :: json where
  "sample_metadata =
     JObj [(js ''safetensors'', JObj [(js ''total'', JNum 7000000000)]),
           (js ''cardData'', JObj [(js ''license'', JStr (js ''mit''))])]"

definition sample_world :: "jsstring \<Rightarrow> json \<Rightarrow> nat \<Rightarrow> jsstring \<Rightarrow> world" where
  "sample_world n m st readme =
     \<lparr> fetch = (\<lambda>r. case r of
          GET u \<Rightarrow>
            if u = readme_url n
            then Inr \<lparr> status = st, statusText = [], body_text = readme, body_json = None \<rparr>
            else Inr \<lparr> status = 200, statusText = js ''OK'', body_text = [], body_json = Some m \<rparr>
        | POST u h b \<Rightarrow>
            Inr \<lparr> status = 204, statusText = js ''No Content'', body_text = [], body_json = None \<rparr>),
       now = js ''2025-01-01T00:00:00.000Z'',
       abbreviate_coerced = (\<lambda>v. js ''NaN'') \<rparr>"

section \<open>Properties\<close>

subsection \<open>The relevance filter\<close>

lemma lower_unit_same_letter:
  "\<not> is_upper k \<Longrightarrow> (lower_unit c = k) = same_letter c k"
  by (auto simp: lower_unit_def same_letter_def)

lemma starts_with_lower:
  "\<forall>k\<in>set K. \<not> is_upper k \<Longrightarrow> starts_with (map lower_unit s) K = starts_any_case s K"
  by (induction s K rule: starts_any_case.induct) (simp_all add: lower_unit_same_letter)

lemma includes_lower:
  "\<forall>k\<in>set K. \<not> is_upper k \<Longrightarrow> includes_js (toLowerCase s) K = occurs_any_case K s"
proof (induction s)
  case Nil
  then show ?case using starts_with_lower [of K "[]"] by (simp add: toLowerCase_def)
next
  case (Cons c cs)
  then show ?case using starts_with_lower [of K "c # cs"] by (simp add: toLowerCase_def)
qed

text \<open>
  What the recursive predicate says: \<open>s\<close> has a part that agrees with \<open>K\<close> unit by
  unit up to the case of the letters.
\<close>

lemma starts_any_case_iff:
  "starts_any_case s K = (\<exists>v w. s = v @ w \<and> list_all2 same_letter v K)"
proof (induction s K rule: starts_any_case.induct)
  case (1 s)
  then show ?case by simp
next
  case (2 k ks)
  then show ?case by simp
next
  case (3 c cs k ks)
  show ?case
  proof
    assume "starts_any_case (c # cs) (k # ks)"
    then obtain v w where "same_letter c k" "cs = v @ w" "list_all2 same_letter v ks"
      using 3 by auto
    then have "c # cs = (c # v) @ w \<and> list_all2 same_letter (c # v) (k # ks)" by simp
    then show "\<exists>v w. c # cs = v @ w \<and> list_all2 same_letter v (k # ks)" by blast
  next
    assume "\<exists>v w. c # cs = v @ w \<and> list_all2 same_letter v (k # ks)"
    then obtain v w where vw: "c # cs = v @ w" "list_all2 same_letter v (k # ks)" by blast
    then obtain v' where "v = c # v'" "same_letter c k" "list_all2 same_letter v' ks" "cs = v' @ w"
      by (cases v) auto
    then show "starts_any_case (c # cs) (k # ks)" using 3 by auto
  qed
qed

lemma occurs_any_case_iff:
  "occurs_any_case K s = (\<exists>u v w. s = u @ v @ w \<and> list_all2 same_letter v K)"
proof (induction s)
  case Nil
  then show ?case by (auto simp: starts_any_case_iff)
next
  case (Cons c cs)
  show ?case
  proof
    assume "occurs_any_case K (c # cs)"
    then consider "starts_any_case (c # cs) K" | "occurs_any_case K cs" by auto
    then show "\<exists>u v w. c # cs = u @ v @ w \<and> list_all2 same_letter v K"
    proof cases
      case 1
      then obtain v w where "c # cs = [] @ v @ w" "list_all2 same_letter v K"
        by (auto simp: starts_any_case_iff)
      then show ?thesis by blast
    next
      case 2
      then obtain u v w where "cs = u @ v @ w" "list_all2 same_letter v K" using Cons by blast
      then have "c # cs = (c # u) @ v @ w" by simp
      then show ?thesis using \<open>list_all2 same_letter v K\<close> by blast
    qed
  next
    assume "\<exists>u v w. c # cs = u @ v @ w \<and> list_all2 same_letter v K"
    then obtain u v w where uvw: "c # cs = u @ v @ w" "list_all2 same_letter v K" by blast
    show "occurs_any_case K (c # cs)"
    proof (cases u)
      case Nil
      then have "starts_any_case (c # cs) K" using uvw by (auto simp: starts_any_case_iff)
      then show ?thesis by simp
    next
      case (Cons a u')
      then have "cs = u' @ v @ w" using uvw by simp
      then have "occurs_any_case K cs" using Cons.IH uvw(2) by blast
      then show ?thesis by simp
    qed
  qed
qed

lemma DENYLIST_lower: "\<forall>K\<in>set DENYLIST. \<forall>k\<in>set K. \<not> is_upper k"
  by (simp add: DENYLIST_def js_def is_upper_def)

lemma denied_iff: "denied name = (\<exists>K\<in>set DENYLIST. occurs_any_case K name)"
  using DENYLIST_lower by (auto simp: denied_def list_ex_iff includes_lower)

text \<open>
  Claim C1. For every keyword \<open>K\<close> of the denylist, an identifier that contains \<open>K\<close> in any
  letter case is rejected, and the pipeline produces no notification for it; an identifier
  that contains no keyword of the denylist, in any letter case, is accepted; the empty
  identifier is accepted.
\<close>

theorem relevance_filter:
  "(\<forall>K\<in>set DENYLIST. occurs_any_case K name \<longrightarrow> \<not> isRelevant name)
   \<and> (\<forall>K\<in>set DENYLIST. occurs_any_case K (repo_name (repo p)) \<longrightarrow>
         notification w p webhookUrl = None)
   \<and> ((\<forall>K\<in>set DENYLIST. \<not> occurs_any_case K name) \<longrightarrow> isRelevant name)
   \<and> isRelevant []"
proof -
  have "\<forall>K\<in>set DENYLIST. occurs_any_case K (repo_name (repo p)) \<longrightarrow>
         notification w p webhookUrl = None"
    by (auto simp: notification_def sendToDiscord_def denied_iff)
  moreover have "isRelevant []"
    by (simp add: isRelevant_def denied_iff DENYLIST_def js_def)
  ultimately show ?thesis by (auto simp: isRelevant_def denied_iff)
qed

theorem relevance_filter_witness:
  "js ''gguf'' \<in> set DENYLIST
   \<and> occurs_any_case (js ''gguf'') (js ''acme/Model-GgUf'')
   \<and> \<not> isRelevant (js ''acme/Model-GgUf'')
   \<and> notification (sample_world (js ''acme/Model-GgUf'') sample_metadata 200 (js ''Text''))
        (sample_event (js ''model'') (js ''acme/Model-GgUf'') False) (js ''https://discord.test/hook'')
      = None
   \<and> list_all (\<lambda>K. \<not> occurs_any_case K (js ''acme/small-model'')) DENYLIST
   \<and> isRelevant (js ''acme/small-model'')"
proof -
  have a: "js ''gguf'' \<in> set DENYLIST" by (simp add: DENYLIST_def)
  have b: "occurs_any_case (js ''gguf'') (js ''acme/Model-GgUf'')"
    by (simp add: js_def same_letter_def is_upper_def)
  have b': "occurs_any_case (js ''gguf'')
      (repo_name (repo (sample_event (js ''model'') (js ''acme/Model-GgUf'') False)))"
    using b by (simp add: sample_event_def)
  have c: "list_all (\<lambda>K. \<not> occurs_any_case K (js ''acme/small-model'')) DENYLIST"
    by (simp add: DENYLIST_def js_def same_letter_def is_upper_def)
  from relevance_filter [of "js ''acme/Model-GgUf''"] a b
  have d: "\<not> isRelevant (js ''acme/Model-GgUf'')" by blast
  from relevance_filter
    [of _ "sample_event (js ''model'') (js ''acme/Model-GgUf'') False"
       "sample_world (js ''acme/Model-GgUf'') sample_metadata 200 (js ''Text'')"
       "js ''https://discord.test/hook''"] a b'
  have n: "notification (sample_world (js ''acme/Model-GgUf'') sample_metadata 200 (js ''Text''))
        (sample_event (js ''model'') (js ''acme/Model-GgUf'') False) (js ''https://discord.test/hook'')
      = None"
    by blast
  from relevance_filter [of "js ''acme/small-model''"] c
  have e: "isRelevant (js ''acme/small-model'')" by (simp add: list_all_iff)
  from a b c d e n show ?thesis by blast
qed

subsection \<open>abbreviateNumber\<close>

declare reduce.simps [simp del] digits.simps [simp del] pieces.simps [simp del]
























subsection \<open>sendToDiscord\<close>

lemmas regex_eval =
  js_def lit_def lit_i_def dec_def space_def line_terminator_def dot_def any_unit_def digit_def
  hex_digit_def canon_def FRONTMATTER_def HTML_BLOCK_def VOID_TAG_def ANY_TAG_def ATX_HEADING_def
  SETEXT_UNDERLINE_def IMAGE_def TABLE_ROW_def HEX_ENTITY_def DEC_ENTITY_def TRAILING_BLANKS_def
  NEWLINES_def collapse_whitespace_def replace_str_def replace_fn_def parseInt_def
  fromCodePoint_def trim_def slice0_def digit_value_def pieces.simps

lemma cleanMarkdown_absent: "cleanMarkdown None = Inr (js ''...'')"
  unfolding cleanMarkdown_def cleaned_def strip_markup_def Let_def by (simp add: regex_eval)

lemma has_path_well_formed:
  "well_formed m \<Longrightarrow>
     has_path m (js ''safetensors'') (js ''total'')
       = Inr (lookup_path m (js ''safetensors'') (js ''total'') \<noteq> None)
   \<and> has_path m (js ''cardData'') (js ''license'')
       = Inr (lookup_path m (js ''cardData'') (js ''license'') \<noteq> None)"
  by (auto simp: well_formed_def has_path_def js_in_def get_member_def lookup_path_def is_object_def
      split: json.splits option.splits)

lemma get_member_path:
  "lookup_path m a b = Some v \<Longrightarrow> get_member (get_member m a) b = v"
  by (auto simp: get_member_def lookup_path_def split: json.splits option.splits)

lemma pushes_well_formed:
  assumes "well_formed m"
  shows "\<exists>e2. (case push_parameters w m e of Inl err \<Rightarrow> Inl err | Inr e1 \<Rightarrow> push_license m e1) = Inr e2
     \<and> description e2 = description e \<and> color e2 = color e \<and> title e2 = title e
     \<and> url e2 = url e \<and> timestamp e2 = timestamp e
     \<and> embed_fields e2 = embed_fields e
         @ (case lookup_path m (js ''safetensors'') (js ''total'') of
              None \<Rightarrow> []
            | Some v \<Rightarrow>
                [\<lparr> field_name = js ''Parameters'', field_value = JStr (parameters_value w v),
                   inline = True \<rparr>])
         @ (case lookup_path m (js ''cardData'') (js ''license'') of
              None \<Rightarrow> []
            | Some v \<Rightarrow> [\<lparr> field_name = js ''License'', field_value = v, inline = True \<rparr>])"
  using has_path_well_formed [OF assms]
  by (auto simp: push_parameters_def push_license_def get_member_path split: option.splits)

lemma send_accepted:
  assumes rel: "isRelevant (repo_name (repo p))"
    and f1: "fetch w (GET (api (repo_url (repo p)))) = Inr r1"
    and j1: "body_json r1 = Some m"
    and wf: "well_formed m"
    and f2: "fetch w (GET (readme_url (repo_name (repo p)))) = Inr r2"
    and cm: "cleanMarkdown (if status r2 = 200 then Some (body_text r2) else None) = Inr d"
  shows "\<exists>e. notification w p webhookUrl = Some \<lparr> embeds = [e] \<rparr>
    \<and> fst (sendToDiscord w p webhookUrl)
        = [GET (api (repo_url (repo p))), GET (readme_url (repo_name (repo p))),
           POST webhookUrl [(js ''Content-Type'', js ''application/json'')] \<lparr> embeds = [e] \<rparr>]
    \<and> title e = repo_name (repo p)
    \<and> description e = d
    \<and> color e = lookup_color (repo_type (repo p))
    \<and> embed_fields e = expected_fields w (repo_type (repo p)) m"
proof -
  from pushes_well_formed [OF wf, of w "base_embed w (repo p) d"]
  obtain e2 where e2:
    "(case push_parameters w m (base_embed w (repo p) d) of
        Inl err \<Rightarrow> Inl err | Inr e1 \<Rightarrow> push_license m e1) = Inr e2"
    "description e2 = d" "color e2 = lookup_color (repo_type (repo p))"
    "title e2 = repo_name (repo p)"
    "embed_fields e2 = expected_fields w (repo_type (repo p)) m"
    by (auto simp: base_embed_def expected_fields_def)
  from e2(1) obtain e1 where e1:
    "push_parameters w m (base_embed w (repo p) d) = Inr e1" "push_license m e1 = Inr e2"
    by (auto split: sum.splits)
  have "fst (sendToDiscord w p webhookUrl)
        = [GET (api (repo_url (repo p))), GET (readme_url (repo_name (repo p))),
           POST webhookUrl [(js ''Content-Type'', js ''application/json'')] \<lparr> embeds = [e2] \<rparr>]"
    using rel f1 j1 f2 cm e1
    by (simp add: sendToDiscord_def isRelevant_def webhook_request_def split: sum.splits)
  then show ?thesis using e2 by (auto simp: notification_def)
qed

text \<open>
  Claim C9. For an event whose identifier the filter rejects, \<open>sendToDiscord\<close> returns
  before its first \<open>fetch\<close>: no call is made and no notification is produced.
\<close>

theorem rejected_no_fetch:
  "\<not> isRelevant (repo_name (repo p)) \<Longrightarrow>
     sendToDiscord w p webhookUrl = ([], Inr ()) \<and> notification w p webhookUrl = None"
  by (simp add: sendToDiscord_def notification_def isRelevant_def)

lemmas filter_eval =
  isRelevant_def denied_def DENYLIST_def toLowerCase_def lower_unit_def is_upper_def js_def

theorem rejected_no_fetch_witness:
  "\<not> isRelevant (repo_name (repo (sample_event (js ''model'') (js ''acme/model-gguf'') False)))
   \<and> sendToDiscord (sample_world (js ''acme/model-gguf'') sample_metadata 200 (js ''Text''))
        (sample_event (js ''model'') (js ''acme/model-gguf'') False) (js ''https://discord.test/hook'')
      = ([], Inr ())
   \<and> notification (sample_world (js ''acme/model-gguf'') sample_metadata 200 (js ''Text''))
        (sample_event (js ''model'') (js ''acme/model-gguf'') False) (js ''https://discord.test/hook'')
      = None"
proof -
  have h: "\<not> isRelevant (repo_name (repo (sample_event (js ''model'') (js ''acme/model-gguf'') False)))"
    by (simp add: sample_event_def filter_eval)
  from h rejected_no_fetch [OF h] show ?thesis by blast
qed

text \<open>
  Claim C10. The visibility flag of the event is never read: two events that differ in it
  alone lead to the same calls, the same notification and the same outcome.
\<close>

theorem visibility_ignored:
  "sendToDiscord w (p\<lparr>repo := (repo p)\<lparr>repo_private := b\<rparr>\<rparr>) webhookUrl = sendToDiscord w p webhookUrl
   \<and> notification w (p\<lparr>repo := (repo p)\<lparr>repo_private := b\<rparr>\<rparr>) webhookUrl = notification w p webhookUrl
   \<and> isRelevant (repo_name (repo (p\<lparr>repo := (repo p)\<lparr>repo_private := b\<rparr>\<rparr>))) = isRelevant (repo_name (repo p))"
  by (simp add: sendToDiscord_def notification_def base_embed_def cong: sum.case_cong option.case_cong)

text \<open>
  Claim C6. When the documentation fetch answers with a status other than 200 (404, say),
  the notification is still sent, and its description is the three dots alone.
\<close>

theorem readme_absent_still_notifies:
  assumes "isRelevant (repo_name (repo p))"
    and "fetch w (GET (api (repo_url (repo p)))) = Inr r1"
    and "body_json r1 = Some m"
    and "well_formed m"
    and "fetch w (GET (readme_url (repo_name (repo p)))) = Inr r2"
    and "status r2 \<noteq> 200"
  shows "\<exists>e. notification w p webhookUrl = Some \<lparr> embeds = [e] \<rparr> \<and> description e = js ''...''"
proof -
  have "cleanMarkdown (if status r2 = 200 then Some (body_text r2) else None) = Inr (js ''...'')"
    using assms(6) by (simp add: cleanMarkdown_absent)
  from send_accepted [OF assms(1-5) this, of webhookUrl] show ?thesis by blast
qed

lemma sample_world_fetch:
  "fetch (sample_world n m st readme) (GET (api (repo_url (repo (sample_event t n v)))))
     = Inr \<lparr> status = 200, statusText = js ''OK'', body_text = [], body_json = Some m \<rparr>"
  "fetch (sample_world n m st readme) (GET (readme_url (repo_name (repo (sample_event t n v)))))
     = Inr \<lparr> status = st, statusText = [], body_text = readme, body_json = None \<rparr>"
  by (simp_all add: sample_world_def sample_event_def readme_url_def js_def)

lemma sample_metadata_well_formed: "well_formed sample_metadata"
  by (simp add: well_formed_def sample_metadata_def is_object_def js_in_def get_member_def js_def)

lemma sample_relevant: "isRelevant (repo_name (repo (sample_event t (js ''acme/small-model'') v)))"
  by (simp add: sample_event_def filter_eval)

theorem readme_absent_still_notifies_witness:
  "isRelevant (repo_name (repo (sample_event (js ''model'') (js ''acme/small-model'') False)))
   \<and> well_formed sample_metadata
   \<and> (404 :: nat) \<noteq> 200
   \<and> (\<exists>e. notification (sample_world (js ''acme/small-model'') sample_metadata 404 (js ''Not Found''))
             (sample_event (js ''model'') (js ''acme/small-model'') False)
             (js ''https://discord.test/hook'') = Some \<lparr> embeds = [e] \<rparr>
          \<and> description e = js ''...'')"
proof -
  have s: "status \<lparr> status = 404, statusText = [], body_text = js ''Not Found'', body_json = None \<rparr> \<noteq> 200"
    by simp
  have j: "body_json \<lparr> status = 200, statusText = js ''OK'', body_text = [],
      body_json = Some sample_metadata \<rparr> = Some sample_metadata"
    by simp
  from readme_absent_still_notifies
    [OF sample_relevant sample_world_fetch(1) j sample_metadata_well_formed sample_world_fetch(2) s]
  have "\<exists>e. notification (sample_world (js ''acme/small-model'') sample_metadata 404 (js ''Not Found''))
             (sample_event (js ''model'') (js ''acme/small-model'') False)
             (js ''https://discord.test/hook'') = Some \<lparr> embeds = [e] \<rparr>
          \<and> description e = js ''...''" .
  with sample_relevant sample_metadata_well_formed show ?thesis by simp
qed









text \<open>
  Claim C8. The colour is looked up by the subject type in the table of three entries.
  For a type outside the table the source means grey (\<open>// Gray for unknown types\<close>), but
  the lookup \<open>colors[repo.type]\<close> also finds the properties that every object inherits:
  for the type \<open>constructor\<close> it yields a function, which is truthy, so the colour of the
  notification is not grey.
\<close>

lemma color_table:
  "lookup_color (js ''model'') = Number 0xFF9D00"
  "lookup_color (js ''dataset'') = Number 0x00D1FF"
  "lookup_color (js ''space'') = Number 0xFF006E"
  by (simp_all add: lookup_color_def colors_def js_def)

lemma color_default:
  "t \<notin> fst ` set colors \<Longrightarrow> t \<notin> set object_prototype_names \<Longrightarrow> lookup_color t = Number 0x808080"
  by (simp add: lookup_color_def map_of_eq_None_iff [THEN iffD2])

theorem color_of_inherited_name:
  "lookup_color (js ''constructor'') = Inherited (js ''constructor'')
   \<and> (\<exists>e. notification (sample_world (js ''acme/small-model'') sample_metadata 404 [])
             (sample_event (js ''constructor'') (js ''acme/small-model'') False)
             (js ''https://discord.test/hook'') = Some \<lparr> embeds = [e] \<rparr>
          \<and> color e = Inherited (js ''constructor''))"
proof -
  have c: "lookup_color (js ''constructor'') = Inherited (js ''constructor'')"
    by (simp add: lookup_color_def colors_def object_prototype_names_def js_def)
  have j: "body_json \<lparr> status = 200, statusText = js ''OK'', body_text = [],
      body_json = Some sample_metadata \<rparr> = Some sample_metadata"
    by simp
  have d: "cleanMarkdown
      (if status \<lparr> status = 404, statusText = [], body_text = [], body_json = None \<rparr> = 200
       then Some (body_text \<lparr> status = 404, statusText = [], body_text = [], body_json = None \<rparr>)
       else None) = Inr (js ''...'')"
    by (simp add: cleanMarkdown_absent)
  from send_accepted
    [OF sample_relevant sample_world_fetch(1) j sample_metadata_well_formed sample_world_fetch(2) d,
     of "js ''constructor''" False "js ''https://discord.test/hook''"]
  obtain e where
    "notification (sample_world (js ''acme/small-model'') sample_metadata 404 [])
       (sample_event (js ''constructor'') (js ''acme/small-model'') False)
       (js ''https://discord.test/hook'') = Some \<lparr> embeds = [e] \<rparr>"
    "color e = lookup_color (repo_type (repo (sample_event (js ''constructor'') (js ''acme/small-model'') False)))"
    by blast
  then show ?thesis using c by (auto simp: sample_event_def)
qed

subsection \<open>cleanMarkdown: headings and underlines\<close>

lemma rep_greedy:
  assumes "\<forall>c\<in>set w. p c"
    and "lo \<le> length w"
    and "case hi of None \<Rightarrow> True | Some h \<Rightarrow> length w \<le> h"
    and "rest = [] \<or> \<not> p (hd rest) \<or> hi = Some (length w)"
    and "run k cap (prev_after prev w) rest = Some r"
  shows "run (Rep True lo hi p # k) cap prev (w @ rest) = Some r"
  using assms
proof (induction w arbitrary: lo hi prev)
  case Nil
  then show ?case by (cases rest) (auto simp: prev_after_def)
next
  case (Cons c cs)
  have step: "run (Rep True (lo - 1) (dec hi) p # k) cap (Some c) (cs @ rest) = Some r"
  proof (rule Cons.IH)
    show "\<forall>c\<in>set cs. p c" using Cons.prems(1) by simp
    show "lo - 1 \<le> length cs" using Cons.prems(2) by simp
    show "case dec hi of None \<Rightarrow> True | Some h \<Rightarrow> length cs \<le> h"
      using Cons.prems(3) by (cases hi) (auto simp: dec_def)
    show "rest = [] \<or> \<not> p (hd rest) \<or> dec hi = Some (length cs)"
      using Cons.prems(4) by (auto simp: dec_def)
    show "run k cap (prev_after (Some c) cs) rest = Some r"
      using Cons.prems(5) by (cases "cs = []") (simp_all add: prev_after_def)
  qed
  have pc: "p c" using Cons.prems(1) by simp
  have hi0: "hi \<noteq> Some 0" using Cons.prems(3) by (cases hi) auto
  show ?case
  proof (cases "lo > 0")
    case True
    then show ?thesis using pc step by simp
  next
    case False
    then show ?thesis using pc step hi0 by simp
  qed
qed














text \<open>The two steps inside \<open>cleanMarkdown\<close>, on a small document.\<close>

lemma heading_example:
  "cleanMarkdown (Some (js ''## Usage'' @ [10] @ js ''Text'' @ [10] @ js ''---'')) = Inr (js ''Text...'')"
  unfolding cleanMarkdown_def cleaned_def strip_markup_def Let_def by (simp add: regex_eval)

subsection \<open>cleanMarkdown: the length of the summary\<close>

lemma run_rep_cons:
  "run (Rep g lo hi p # k) cap prev (c # cs) =
     (if lo > 0 then (if p c then run (Rep g (lo - 1) (dec hi) p # k) cap (Some c) cs else None)
      else if hi = Some 0 then run k cap prev (c # cs)
      else if g then
        (case (if p c then run (Rep g 0 (dec hi) p # k) cap (Some c) cs else None) of
           Some r \<Rightarrow> Some r | None \<Rightarrow> run k cap prev (c # cs))
      else
        (case run k cap prev (c # cs) of
           Some r \<Rightarrow> Some r
         | None \<Rightarrow> (if p c then run (Rep g 0 (dec hi) p # k) cap (Some c) cs else None)))"
  by (simp cong: option.case_cong)

lemma lazy_frontmatter:
  "run (Rep False 0 None any_unit # One (\<lambda>c. c = 10) # lit ''---''
        @ [Rep True 0 None space, Rep True 0 (Some 1) (\<lambda>c. c = 10)])
     cap prev (replicate n 97 @ 10 # js ''---'' @ [10]) = Some (cap, [])"
proof (induction n arbitrary: prev)
  case 0
  show ?case by (simp add: lit_def js_def dec_def space_def)
next
  case (Suc n)
  let ?k = "One (\<lambda>c. c = 10) # lit ''---'' @ [Rep True 0 None space, Rep True 0 (Some 1) (\<lambda>c. c = 10)]"
  have "run (Rep False 0 None any_unit # ?k) cap prev (97 # (replicate n 97 @ 10 # js ''---'' @ [10]))
      = run (Rep False 0 None any_unit # ?k) cap (Some 97) (replicate n 97 @ 10 # js ''---'' @ [10])"
    by (subst run.simps(3)) (simp add: dec_def any_unit_def del: run.simps(3))
  then show ?case using Suc.IH [of "Some 97"] by simp
qed

lemma frontmatter_run:
  "run FRONTMATTER None None (js ''---'' @ [10] @ replicate (Suc n) 97 @ [10] @ js ''---'' @ [10])
     = Some (None, [])"
proof -
  let ?k = "One (\<lambda>c. c = 10) # lit ''---'' @ [Rep True 0 None space, Rep True 0 (Some 1) (\<lambda>c. c = 10)]"
  have a: "run FRONTMATTER None None (js ''---'' @ [10] @ replicate (Suc n) 97 @ [10] @ js ''---'' @ [10])
      = run (Rep True 0 None space # Rep False 0 None any_unit # ?k) None (Some 45)
          (10 # 97 # (replicate n 97 @ 10 # js ''---'' @ [10]))"
    by (simp add: FRONTMATTER_def lit_def js_def dec_def run_rep_cons del: run.simps(3))
  have b: "run (Rep True 0 None space # Rep False 0 None any_unit # ?k) None (Some 45)
          ([10] @ (97 # (replicate n 97 @ 10 # js ''---'' @ [10]))) = Some (None, [])"
  proof (rule rep_greedy)
    show "\<forall>c\<in>set [10]. space c" by (simp add: space_def)
    show "0 \<le> length [10::nat]" by simp
    show "case None of None \<Rightarrow> True | Some h \<Rightarrow> length [10::nat] \<le> h" by simp
    show "97 # (replicate n 97 @ 10 # js ''---'' @ [10]) = []
        \<or> \<not> space (hd (97 # (replicate n 97 @ 10 # js ''---'' @ [10])))
        \<or> None = Some (length [10::nat])"
      by (simp add: space_def)
    show "run (Rep False 0 None any_unit # ?k) None (prev_after (Some 45) [10])
        (97 # (replicate n 97 @ 10 # js ''---'' @ [10])) = Some (None, [])"
      using lazy_frontmatter [of None "prev_after (Some 45) [10]" "Suc n"] by simp
  qed
  show ?thesis using a b by simp
qed

lemma frontmatter_replace:
  "replace_str FRONTMATTER False [] (js ''---'' @ [10] @ replicate (Suc n) 97 @ [10] @ js ''---'' @ [10]) = []"
proof -
  have "pieces FRONTMATTER False None (js ''---'' @ [10] @ replicate (Suc n) 97 @ [10] @ js ''---'' @ [10])
      = [Matched None]"
    by (subst pieces.simps, simp only: frontmatter_run, simp)
  then show ?thesis by (simp only: replace_str_def, simp)
qed

lemma frontmatter_replace_empty: "replace_str FRONTMATTER False [] [] = []"
  by (simp add: regex_eval)

lemma cleanMarkdown_empty: "cleanMarkdown (Some []) = Inr (js ''...'')"
  unfolding cleanMarkdown_def cleaned_def strip_markup_def Let_def by (simp add: regex_eval)

lemma cleanMarkdown_frontmatter_only:
  "cleanMarkdown (Some (js ''---'' @ [10] @ replicate (Suc n) 97 @ [10] @ js ''---'' @ [10]))
     = Inr (js ''...'')"
proof -
  have "strip_markup (Some (js ''---'' @ [10] @ replicate (Suc n) 97 @ [10] @ js ''---'' @ [10]))
      = strip_markup (Some [])"
    by (simp only: strip_markup_def Let_def option.case frontmatter_replace frontmatter_replace_empty)
  then have "cleanMarkdown (Some (js ''---'' @ [10] @ replicate (Suc n) 97 @ [10] @ js ''---'' @ [10]))
      = cleanMarkdown (Some [])"
    by (simp only: cleanMarkdown_def cleaned_def)
  then show ?thesis by (simp only: cleanMarkdown_empty)
qed

lemma cleanMarkdown_entity_out_of_range:
  "cleanMarkdown (Some (js ''&#x110000;'')) = Inl RangeError"
  unfolding cleanMarkdown_def cleaned_def strip_markup_def Let_def by (simp add: regex_eval)

text \<open>
  Claim C4, as stated: an input of at least 1021 code units gives a result of exactly 1024,
  and every result ends with the three dots. The cut is made after the cleaning steps, so
  an input of 1026 code units that is one frontmatter block gives the three dots alone;
  and a numeric entity beyond \<open>0x10FFFF\<close> makes \<open>String.fromCodePoint\<close> throw, so that
  there is no result.
\<close>

theorem summarize_length_counterexample:
  "1021 \<le> length (js ''---'' @ [10] @ replicate 1017 97 @ [10] @ js ''---'' @ [10])
   \<and> cleanMarkdown (Some (js ''---'' @ [10] @ replicate 1017 97 @ [10] @ js ''---'' @ [10]))
       = Inr (js ''...'')
   \<and> length (js ''...'') = 3
   \<and> cleanMarkdown (Some (js ''&#x110000;'')) = Inl RangeError"
proof -
  have e: "(1017::nat) = Suc 1016" by simp
  have "cleanMarkdown (Some (js ''---'' @ [10] @ replicate 1017 97 @ [10] @ js ''---'' @ [10]))
       = Inr (js ''...'')"
    unfolding e by (rule cleanMarkdown_frontmatter_only)
  moreover have "1021 \<le> length (js ''---'' @ [10] @ replicate 1017 97 @ [10] @ js ''---'' @ [10])"
    by (simp add: js_def)
  moreover have "length (js ''...'') = 3" by (simp add: js_def)
  ultimately show ?thesis using cleanMarkdown_entity_out_of_range by blast
qed

lemma alnum_facts:
  assumes "alnum c"
  shows "\<not> space c" "c \<noteq> 60" "c \<noteq> 35" "c \<noteq> 45" "c \<noteq> 61" "c \<noteq> 33" "c \<noteq> 124"
    "c \<noteq> 38" "c \<noteq> 32" "c \<noteq> 9" "c \<noteq> 10" "c \<noteq> 65279" "canon c \<noteq> 60"
  using assms by (auto simp: alnum_def digit_def space_def canon_def)

lemma pieces_no_match:
  assumes "\<And>prev u. \<forall>c\<in>set u. alnum c \<Longrightarrow> run re None prev u = None"
    and "\<forall>c\<in>set s. alnum c"
  shows "pieces re g prev s = map Kept s"
  using assms(2)
proof (induction s arbitrary: prev)
  case Nil
  then show ?case using assms(1) [of "[]"] by (subst pieces.simps) simp
next
  case (Cons c cs)
  then show ?case using assms(1) [of "c # cs" prev] by (subst pieces.simps) simp
qed

lemma kept_only:
  "concat (map (\<lambda>p. case p of Kept c \<Rightarrow> [c] | Matched cap \<Rightarrow> r) (map Kept s)) = s"
  by (induction s) auto

lemma call_replacer_kept: "call_replacer f (map Kept s) = Inr s"
  by (induction s) auto

lemma replace_str_no_match:
  assumes "\<And>prev u. \<forall>c\<in>set u. alnum c \<Longrightarrow> run re None prev u = None"
    and "\<forall>c\<in>set s. alnum c"
  shows "replace_str re g r s = s"
  by (simp only: replace_str_def pieces_no_match [OF assms] kept_only)

lemma replace_fn_no_match:
  assumes "\<And>prev u. \<forall>c\<in>set u. alnum c \<Longrightarrow> run re None prev u = None"
    and "\<forall>c\<in>set s. alnum c"
  shows "replace_fn re g f s = Inr s"
  by (simp only: replace_fn_def pieces_no_match [OF assms] call_replacer_kept)

lemmas pattern_defs =
  FRONTMATTER_def HTML_BLOCK_def VOID_TAG_def ANY_TAG_def ATX_HEADING_def SETEXT_UNDERLINE_def
  IMAGE_def TABLE_ROW_def HEX_ENTITY_def DEC_ENTITY_def TRAILING_BLANKS_def NEWLINES_def
  lit_def lit_i_def js_def dec_def

lemma canon_lt: "canon 60 = 60"
  by (simp add: canon_def)

lemma plain_FRONTMATTER: "\<forall>c\<in>set u. alnum c \<Longrightarrow> run FRONTMATTER None prev u = None"
  by (cases u) (simp_all add: pattern_defs alnum_facts canon_lt)

lemma plain_HTML_BLOCK: "\<forall>c\<in>set u. alnum c \<Longrightarrow> run HTML_BLOCK None prev u = None"
  by (cases u) (simp_all add: pattern_defs alnum_facts canon_lt)

lemma plain_VOID_TAG: "\<forall>c\<in>set u. alnum c \<Longrightarrow> run VOID_TAG None prev u = None"
  by (cases u) (simp_all add: pattern_defs alnum_facts canon_lt)

lemma plain_ANY_TAG: "\<forall>c\<in>set u. alnum c \<Longrightarrow> run ANY_TAG None prev u = None"
  by (cases u) (simp_all add: pattern_defs alnum_facts canon_lt)

lemma plain_ATX_HEADING: "\<forall>c\<in>set u. alnum c \<Longrightarrow> run ATX_HEADING None prev u = None"
  by (cases u) (simp_all add: pattern_defs alnum_facts canon_lt)

lemma plain_SETEXT_UNDERLINE: "\<forall>c\<in>set u. alnum c \<Longrightarrow> run SETEXT_UNDERLINE None prev u = None"
  by (cases u) (simp_all add: pattern_defs alnum_facts canon_lt)

lemma plain_IMAGE: "\<forall>c\<in>set u. alnum c \<Longrightarrow> run IMAGE None prev u = None"
  by (cases u) (simp_all add: pattern_defs alnum_facts canon_lt)

lemma plain_TABLE_ROW: "\<forall>c\<in>set u. alnum c \<Longrightarrow> run TABLE_ROW None prev u = None"
  by (cases u) (simp_all add: pattern_defs alnum_facts canon_lt)

lemma plain_nbsp: "\<forall>c\<in>set u. alnum c \<Longrightarrow> run (lit ''&nbsp;'') None prev u = None"
  by (cases u) (simp_all add: pattern_defs alnum_facts canon_lt)

lemma plain_amp: "\<forall>c\<in>set u. alnum c \<Longrightarrow> run (lit ''&amp;'') None prev u = None"
  by (cases u) (simp_all add: pattern_defs alnum_facts canon_lt)

lemma plain_lt: "\<forall>c\<in>set u. alnum c \<Longrightarrow> run (lit ''&lt;'') None prev u = None"
  by (cases u) (simp_all add: pattern_defs alnum_facts canon_lt)

lemma plain_gt: "\<forall>c\<in>set u. alnum c \<Longrightarrow> run (lit ''&gt;'') None prev u = None"
  by (cases u) (simp_all add: pattern_defs alnum_facts canon_lt)

lemma plain_HEX_ENTITY: "\<forall>c\<in>set u. alnum c \<Longrightarrow> run HEX_ENTITY None prev u = None"
  by (cases u) (simp_all add: pattern_defs alnum_facts canon_lt)

lemma plain_DEC_ENTITY: "\<forall>c\<in>set u. alnum c \<Longrightarrow> run DEC_ENTITY None prev u = None"
  by (cases u) (simp_all add: pattern_defs alnum_facts canon_lt)

lemma plain_TRAILING_BLANKS: "\<forall>c\<in>set u. alnum c \<Longrightarrow> run TRAILING_BLANKS None prev u = None"
  by (cases u) (simp_all add: pattern_defs alnum_facts canon_lt)

lemma plain_NEWLINES: "\<forall>c\<in>set u. alnum c \<Longrightarrow> run NEWLINES None prev u = None"
  by (cases u) (simp_all add: pattern_defs alnum_facts canon_lt)

lemmas replace_str_plain =
  replace_str_no_match [OF plain_FRONTMATTER]
  replace_str_no_match [OF plain_HTML_BLOCK]
  replace_str_no_match [OF plain_VOID_TAG]
  replace_str_no_match [OF plain_ANY_TAG]
  replace_str_no_match [OF plain_ATX_HEADING]
  replace_str_no_match [OF plain_SETEXT_UNDERLINE]
  replace_str_no_match [OF plain_IMAGE]
  replace_str_no_match [OF plain_TABLE_ROW]
  replace_str_no_match [OF plain_nbsp]
  replace_str_no_match [OF plain_amp]
  replace_str_no_match [OF plain_lt]
  replace_str_no_match [OF plain_gt]
  replace_str_no_match [OF plain_TRAILING_BLANKS]
  replace_str_no_match [OF plain_NEWLINES]

lemma strip_markup_plain: "\<forall>c\<in>set t. alnum c \<Longrightarrow> strip_markup (Some t) = t"
  unfolding strip_markup_def Let_def option.case by (simp only: replace_str_plain)

lemma trim_plain: "\<forall>c\<in>set t. alnum c \<Longrightarrow> trim t = t"
proof -
  assume a: "\<forall>c\<in>set t. alnum c"
  have d: "\<And>s. \<forall>c\<in>set s. alnum c \<Longrightarrow> dropWhile space s = s"
  proof -
    fix s :: jsstring
    assume "\<forall>c\<in>set s. alnum c"
    then show "dropWhile space s = s" by (cases s) (auto simp: alnum_facts(1))
  qed
  have "dropWhile space (rev (dropWhile space t)) = rev t"
    using a d [of t] d [of "rev t"] by simp
  then show ?thesis by (simp add: trim_def)
qed

lemma cleaned_plain: "\<forall>c\<in>set t. alnum c \<Longrightarrow> cleaned (Some t) = Inr t"
  unfolding cleaned_def collapse_whitespace_def
  by (simp only: strip_markup_plain trim_plain sum.case
      replace_fn_no_match [OF plain_HEX_ENTITY] replace_fn_no_match [OF plain_DEC_ENTITY]
      replace_str_plain)

text \<open>
  Claim C4, amended. Whenever \<open>cleanMarkdown\<close> returns, its result is the first 1021 code
  units of the cleaned text followed by the three dots: it ends with the three dots and
  has at most 1024 code units. It has exactly 1024 when the cleaned text has at least 1021
  code units, which is the case for every input of at least 1021 letters and digits: such
  an input is returned cut after 1021 code units, with the three dots.
\<close>

theorem summarize_length:
  "(cleanMarkdown md = Inr out \<longrightarrow>
      (\<exists>s. cleaned md = Inr s \<and> out = slice0 1021 s @ js ''...'') \<and> length out \<le> 1024)
   \<and> (cleaned md = Inr s \<and> 1021 \<le> length s \<longrightarrow>
      (\<exists>out. cleanMarkdown md = Inr out \<and> length out = 1024))
   \<and> ((\<forall>c\<in>set t. alnum c) \<and> 1021 \<le> length t \<longrightarrow>
      cleanMarkdown (Some t) = Inr (slice0 1021 t @ js ''...'')
      \<and> length (slice0 1021 t @ js ''...'') = 1024)"
proof (intro conjI impI)
  assume a: "cleanMarkdown md = Inr out"
  then obtain s where s: "cleaned md = Inr s" "out = slice0 1021 s @ js ''...''"
    by (auto simp: cleanMarkdown_def split: sum.splits)
  then show "\<exists>s. cleaned md = Inr s \<and> out = slice0 1021 s @ js ''...''" by blast
  show "length out \<le> 1024" using s(2) by (simp add: slice0_def js_def)
next
  assume "cleaned md = Inr s \<and> 1021 \<le> length s"
  then have "cleanMarkdown md = Inr (slice0 1021 s @ js ''...'')"
    "length (slice0 1021 s @ js ''...'') = 1024"
    by (simp_all add: cleanMarkdown_def slice0_def js_def)
  then show "\<exists>out. cleanMarkdown md = Inr out \<and> length out = 1024" by blast
next
  assume a: "(\<forall>c\<in>set t. alnum c) \<and> 1021 \<le> length t"
  then show "cleanMarkdown (Some t) = Inr (slice0 1021 t @ js ''...'')"
    by (simp add: cleanMarkdown_def cleaned_plain)
  show "length (slice0 1021 t @ js ''...'') = 1024"
    using a by (simp add: slice0_def js_def)
qed

theorem summarize_length_witness:
  "list_all alnum (replicate 1500 97)
   \<and> 1021 \<le> length (replicate 1500 (97 :: nat))
   \<and> cleaned (Some (replicate 1500 97)) = Inr (replicate 1500 97)
   \<and> cleanMarkdown (Some (replicate 1500 97)) = Inr (replicate 1021 97 @ js ''...'')
   \<and> length (replicate 1021 (97 :: nat) @ js ''...'') = 1024"
proof -
  have p: "\<forall>c\<in>set (replicate 1500 (97 :: nat)). alnum c"
    by (simp add: alnum_def)
  have l: "1021 \<le> length (replicate 1500 (97 :: nat))" by simp
  have c: "cleaned (Some (replicate 1500 97)) = Inr (replicate 1500 97)"
    using p by (rule cleaned_plain)
  from summarize_length [of "Some (replicate 1500 97)" "replicate 1021 97 @ js ''...''"
      "replicate 1500 97" "replicate 1500 97"] p l
  have m: "cleanMarkdown (Some (replicate 1500 97)) = Inr (slice0 1021 (replicate 1500 97) @ js ''...'')"
    and n: "length (slice0 1021 (replicate 1500 (97 :: nat)) @ js ''...'') = 1024"
    by blast+
  have t: "slice0 1021 (replicate 1500 (97 :: nat)) = replicate 1021 97"
    by (simp add: slice0_def)
  from summarize_length [of "Some (replicate 1500 97)" "replicate 1021 97 @ js ''...''"
      "replicate 1500 97" "replicate 1500 97"] c l
  have "\<exists>out. cleanMarkdown (Some (replicate 1500 97)) = Inr out \<and> length out = 1024"
    by blast
  with p l c m n t show ?thesis by (simp add: list_all_iff)
qed

end
